theory Spec2Isabelle
  imports Complex_Main "HOL-Library.Sublist"
begin

section \<open>Python values\<close>

text \<open>
  Payloads and profile documents are what \<^verbatim>\<open>json.load\<close> returns: \<^verbatim>\<open>None\<close>, booleans,
  integers, floats, strings, lists and dictionaries with string keys. A dictionary is an
  association list in insertion order; a key is looked up with \<open>map_of\<close>. A float is
  the real number it denotes (NaN and the infinities are not JSON). A character is one
  code point below 256.
\<close>

datatype json =
    JNull
  | JBool bool
  | JInt int
  | JFloat real
  | JStr string
  | JList "json list"
  | JObj "(string \<times> json) list"

type_synonym pydict = "(string \<times> json) list"

text \<open>
  The implicit exceptions of the interpreter that the validator can run into, and
  \<open>LoadError\<close> for whatever \<^verbatim>\<open>load_profile\<close> raises (a file that is not found, a document
  that is no JSON, a network error).
\<close>

datatype pyerror = AttributeError | TypeError | LoadError

text \<open>\<^verbatim>\<open>type(value).__name__\<close>\<close>

fun type_name :: "json \<Rightarrow> string" where
  "type_name JNull = ''NoneType''"
| "type_name (JBool b) = ''bool''"
| "type_name (JInt i) = ''int''"
| "type_name (JFloat r) = ''float''"
| "type_name (JStr s) = ''str''"
| "type_name (JList xs) = ''list''"
| "type_name (JObj kvs) = ''dict''"

text \<open>The truth value of an object in a condition (\<^verbatim>\<open>if x:\<close>, \<^verbatim>\<open>x or y\<close>).\<close>

fun truthy :: "json \<Rightarrow> bool" where
  "truthy JNull = False"
| "truthy (JBool b) = b"
| "truthy (JInt i) = (i \<noteq> 0)"
| "truthy (JFloat r) = (r \<noteq> 0)"
| "truthy (JStr s) = (s \<noteq> [])"
| "truthy (JList xs) = (xs \<noteq> [])"
| "truthy (JObj kvs) = (kvs \<noteq> [])"

text \<open>\<^verbatim>\<open>isinstance(value, dict)\<close> and \<^verbatim>\<open>isinstance(value, list)\<close>\<close>

fun is_dict :: "json \<Rightarrow> bool" where
  "is_dict (JObj kvs) = True"
| "is_dict v = False"

fun is_list :: "json \<Rightarrow> bool" where
  "is_list (JList xs) = True"
| "is_list v = False"

text \<open>\<^verbatim>\<open>d.get(key, default)\<close>; \<^verbatim>\<open>d.get(key)\<close> has the default \<^verbatim>\<open>None\<close>.\<close>

definition dict_get_default :: "pydict \<Rightarrow> string \<Rightarrow> json \<Rightarrow> json" where
  "dict_get_default d k dflt = (case map_of d k of None \<Rightarrow> dflt | Some v \<Rightarrow> v)"

definition dict_get :: "pydict \<Rightarrow> string \<Rightarrow> json" where
  "dict_get d k = dict_get_default d k JNull"

text \<open>
  \<^verbatim>\<open>isinstance(value, int)\<close> holds of integers and of booleans (\<^verbatim>\<open>bool\<close> is a subclass
  of \<^verbatim>\<open>int\<close>, with \<^verbatim>\<open>True == 1\<close> and \<^verbatim>\<open>False == 0\<close>); \<open>py_int\<close> is the integer such a
  value compares as.
\<close>

fun py_int :: "json \<Rightarrow> int option" where
  "py_int (JBool b) = Some (if b then 1 else 0)"
| "py_int (JInt i) = Some i"
| "py_int v = None"

text \<open>The number a numeric value compares as.\<close>

fun py_num :: "json \<Rightarrow> real option" where
  "py_num (JBool b) = Some (if b then 1 else 0)"
| "py_num (JInt i) = Some (of_int i)"
| "py_num (JFloat r) = Some r"
| "py_num v = None"

text \<open>
  \<^verbatim>\<open>a == b\<close> on parsed JSON: numbers (booleans among them) by value, strings and
  \<^verbatim>\<open>None\<close> by identity of value, lists element by element, dictionaries key by key
  whatever the order.
\<close>

fun py_eq :: "json \<Rightarrow> json \<Rightarrow> bool"
  and py_eq_list :: "json list \<Rightarrow> json list \<Rightarrow> bool"
  and py_eq_items :: "pydict \<Rightarrow> pydict \<Rightarrow> bool" where
  "py_eq JNull w = (w = JNull)"
| "py_eq (JBool b) w = (py_num w = Some (if b then 1 else 0))"
| "py_eq (JInt i) w = (py_num w = Some (of_int i))"
| "py_eq (JFloat r) w = (py_num w = Some r)"
| "py_eq (JStr s) w = (w = JStr s)"
| "py_eq (JList xs) w = (case w of JList ys \<Rightarrow> py_eq_list xs ys | _ \<Rightarrow> False)"
| "py_eq (JObj kvs) w =
     (case w of JObj kws \<Rightarrow> length kvs = length kws \<and> py_eq_items kvs kws | _ \<Rightarrow> False)"
| "py_eq_list [] ys = (ys = [])"
| "py_eq_list (x # xs) ys =
     (case ys of [] \<Rightarrow> False | y # ys' \<Rightarrow> py_eq x y \<and> py_eq_list xs ys')"
| "py_eq_items [] kws = True"
| "py_eq_items (kv # kvs) kws =
     (case map_of kws (fst kv) of
        None \<Rightarrow> False
      | Some w \<Rightarrow> py_eq (snd kv) w \<and> py_eq_items kvs kws)"

text \<open>
  \<^verbatim>\<open>str(value)\<close>, as an f-string renders a value. The rendering of a string is the string
  itself; for the other values it is the argument \<open>fmt\<close> (Python's builtin, which is not
  part of the repository).
\<close>

definition py_format :: "(json \<Rightarrow> string) \<Rightarrow> json \<Rightarrow> string" where
  "py_format fmt v = (case v of JStr s \<Rightarrow> s | _ \<Rightarrow> fmt v)"

text \<open>The decimal rendering of a list index in an f-string.\<close>

definition digit_char :: "nat \<Rightarrow> char" where
  "digit_char d = ''0123456789'' ! d"

function string_of_nat :: "nat \<Rightarrow> string" where
  "string_of_nat n =
     (if n < 10 then [digit_char n] else string_of_nat (n div 10) @ [digit_char (n mod 10)])"
  by pat_completeness auto
termination
  by (relation "measure id") auto

declare string_of_nat.simps [simp del]

section \<open>Errors and results\<close>

record ValidationError =
  path :: string
  message :: string
  expected :: "string option"
  actual :: "string option"

record ValidationResult =
  valid :: bool
  errors :: "ValidationError list"
  warnings :: "string list"

section \<open>The predicates of the OPC UA data types\<close>

definition is_valid_boolean :: "json \<Rightarrow> bool" where
  "is_valid_boolean v = (case v of JBool b \<Rightarrow> True | _ \<Rightarrow> False)"

definition is_valid_int16 :: "json \<Rightarrow> bool" where
  "is_valid_int16 v = (case py_int v of None \<Rightarrow> False | Some i \<Rightarrow> -32768 \<le> i \<and> i \<le> 32767)"

definition is_valid_int32 :: "json \<Rightarrow> bool" where
  "is_valid_int32 v =
     (case py_int v of None \<Rightarrow> False | Some i \<Rightarrow> -2147483648 \<le> i \<and> i \<le> 2147483647)"

definition is_valid_int64 :: "json \<Rightarrow> bool" where
  "is_valid_int64 v =
     (case py_int v of None \<Rightarrow> False
      | Some i \<Rightarrow> -9223372036854775808 \<le> i \<and> i \<le> 9223372036854775807)"

definition is_valid_uint16 :: "json \<Rightarrow> bool" where
  "is_valid_uint16 v = (case py_int v of None \<Rightarrow> False | Some i \<Rightarrow> 0 \<le> i \<and> i \<le> 65535)"

definition is_valid_uint32 :: "json \<Rightarrow> bool" where
  "is_valid_uint32 v = (case py_int v of None \<Rightarrow> False | Some i \<Rightarrow> 0 \<le> i \<and> i \<le> 4294967295)"

definition is_valid_uint64 :: "json \<Rightarrow> bool" where
  "is_valid_uint64 v =
     (case py_int v of None \<Rightarrow> False | Some i \<Rightarrow> 0 \<le> i \<and> i \<le> 18446744073709551615)"

definition is_valid_float :: "json \<Rightarrow> bool" where
  "is_valid_float v = (py_num v \<noteq> None)"

definition is_valid_double :: "json \<Rightarrow> bool" where
  "is_valid_double v = (py_num v \<noteq> None)"

definition is_valid_string :: "json \<Rightarrow> bool" where
  "is_valid_string v = (case v of JStr s \<Rightarrow> True | _ \<Rightarrow> False)"

text \<open>
  The three regular expressions start with a part of fixed width made of character
  classes and literals: \<open>rx_match\<close> matches such a part at the start of a string and
  returns the rest of the string. Among the code points below 256 the class \<^verbatim>\<open>\d\<close>
  holds the ten ASCII digits.
\<close>

datatype rx = Digit | Hex | Lit char

fun rx_class :: "rx \<Rightarrow> char \<Rightarrow> bool" where
  "rx_class Digit c = (c \<in> set ''0123456789'')"
| "rx_class Hex c = (c \<in> set ''0123456789abcdefABCDEF'')"
| "rx_class (Lit l) c = (c = l)"

fun rx_match :: "rx list \<Rightarrow> string \<Rightarrow> string option" where
  "rx_match [] s = Some s"
| "rx_match (r # rs) [] = None"
| "rx_match (r # rs) (c # s) = (if rx_class r c then rx_match rs s else None)"

text \<open>\<^verbatim>\<open>^\d{4}-\d{2}-\d{2}T\d{2}:\d{2}:\d{2}\<close>\<close>

definition datetime_rx :: "rx list" where
  "datetime_rx =
     [Digit, Digit, Digit, Digit, Lit CHR ''-'', Digit, Digit, Lit CHR ''-'', Digit, Digit,
      Lit CHR ''T'', Digit, Digit, Lit CHR '':'', Digit, Digit, Lit CHR '':'', Digit, Digit]"

text \<open>
  \<^verbatim>\<open>$\<close> matches at the end of the string and before a newline that ends the string.
\<close>

definition at_dollar :: "string \<Rightarrow> bool" where
  "at_dollar s = (s = [] \<or> s = [CHR 0x0A])"

text \<open>
  \<^verbatim>\<open>.*Z$\<close>: characters other than newline, then \<^verbatim>\<open>Z\<close>, then \<^verbatim>\<open>$\<close>.
\<close>

definition ends_Z :: "string \<Rightarrow> bool" where
  "ends_Z s = (s \<noteq> [] \<and> last s = CHR ''Z'' \<and> CHR 0x0A \<notin> set s)"

definition rest_Z_dollar :: "string \<Rightarrow> bool" where
  "rest_Z_dollar s = (ends_Z s \<or> (s \<noteq> [] \<and> last s = CHR 0x0A \<and> ends_Z (butlast s)))"

definition is_valid_datetime :: "json \<Rightarrow> bool" where
  "is_valid_datetime v =
     (case v of JStr s \<Rightarrow> rx_match datetime_rx s \<noteq> None | _ \<Rightarrow> False)"

definition is_valid_utctime :: "json \<Rightarrow> bool" where
  "is_valid_utctime v =
     (case v of
        JStr s \<Rightarrow> (case rx_match datetime_rx s of None \<Rightarrow> False | Some t \<Rightarrow> rest_Z_dollar t)
      | _ \<Rightarrow> False)"

text \<open>
  \<^verbatim>\<open>^[0-9a-fA-F]{8}-[0-9a-fA-F]{4}-[0-9a-fA-F]{4}-[0-9a-fA-F]{4}-[0-9a-fA-F]{12}$\<close>
\<close>

definition guid_rx :: "rx list" where
  "guid_rx =
     replicate 8 Hex @ [Lit CHR ''-''] @ replicate 4 Hex @ [Lit CHR ''-''] @ replicate 4 Hex
       @ [Lit CHR ''-''] @ replicate 4 Hex @ [Lit CHR ''-''] @ replicate 12 Hex"

definition is_valid_guid :: "json \<Rightarrow> bool" where
  "is_valid_guid v =
     (case v of
        JStr s \<Rightarrow> (case rx_match guid_rx s of None \<Rightarrow> False | Some t \<Rightarrow> at_dollar t)
      | _ \<Rightarrow> False)"

text \<open>The table from type identifiers to predicates and descriptions.\<close>

definition OPC_TYPE_VALIDATORS :: "(string \<times> (json \<Rightarrow> bool) \<times> string) list" where
  "OPC_TYPE_VALIDATORS =
     [(''opc:Boolean'', is_valid_boolean, ''boolean''),
      (''opc:Int16'', is_valid_int16, ''integer (-32768 to 32767)''),
      (''opc:Int32'', is_valid_int32, ''integer (-2147483648 to 2147483647)''),
      (''opc:Int64'', is_valid_int64, ''integer (64-bit)''),
      (''opc:UInt16'', is_valid_uint16, ''unsigned integer (0 to 65535)''),
      (''opc:UInt32'', is_valid_uint32, ''unsigned integer (0 to 4294967295)''),
      (''opc:UInt64'', is_valid_uint64, ''unsigned integer (64-bit)''),
      (''opc:Float'', is_valid_float, ''float''),
      (''opc:Double'', is_valid_double, ''double''),
      (''opc:String'', is_valid_string, ''string''),
      (''opc:DateTime'', is_valid_datetime, ''ISO 8601 datetime''),
      (''opc:UtcTime'', is_valid_utctime, ''ISO 8601 UTC time (ending with Z)''),
      (''opc:Guid'', is_valid_guid, ''GUID/UUID'')]"

section \<open>The validator\<close>

subsection \<open>The primitive type check and the time zone structure\<close>

definition validate_timezone :: "json \<Rightarrow> string \<Rightarrow> ValidationError list" where
  "validate_timezone v pth =
     (case v of
        JObj d \<Rightarrow>
          (case map_of d ''offset'' of
             None \<Rightarrow>
               [\<lparr>path = pth @ ''.offset'', message = ''Missing required field'',
                 expected = None, actual = None\<rparr>]
           | Some off \<Rightarrow>
               if \<not> is_valid_int16 off then
                 [\<lparr>path = pth @ ''.offset'', message = ''Invalid type'',
                   expected = Some ''integer (-32768 to 32767)'',
                   actual = Some (type_name off)\<rparr>]
               else [])
          @ (case map_of d ''daylightSavingInOffset'' of
               None \<Rightarrow>
                 [\<lparr>path = pth @ ''.daylightSavingInOffset'',
                   message = ''Missing required field'', expected = None, actual = None\<rparr>]
             | Some dst \<Rightarrow>
                 if \<not> is_valid_boolean dst then
                   [\<lparr>path = pth @ ''.daylightSavingInOffset'', message = ''Invalid type'',
                     expected = Some ''boolean'', actual = Some (type_name dst)\<rparr>]
                 else [])
      | _ \<Rightarrow>
          [\<lparr>path = pth, message = ''TimeZoneDataType must be an object'',
            expected = Some ''object with offset and daylightSavingInOffset'',
            actual = Some (type_name v)\<rparr>])"

text \<open>
  \<^verbatim>\<open>opc_type in OPC_TYPE_VALIDATORS\<close> hashes the identifier: a list or a dictionary raises
  \<^verbatim>\<open>TypeError\<close>; a number or a boolean is no key of the table and differs from
  \<^verbatim>\<open>"opc:TimeZoneDataType"\<close>.
\<close>

definition validate_opc_type :: "json \<Rightarrow> json \<Rightarrow> string \<Rightarrow> pyerror + ValidationError list" where
  "validate_opc_type v opc_type pth =
     (case opc_type of
        JList xs \<Rightarrow> Inl TypeError
      | JObj kvs \<Rightarrow> Inl TypeError
      | JStr t \<Rightarrow>
          (case map_of OPC_TYPE_VALIDATORS t of
             Some (validator, type_desc) \<Rightarrow>
               Inr (if \<not> validator v then
                      [\<lparr>path = pth, message = ''Invalid type'', expected = Some type_desc,
                        actual = Some (type_name v)\<rparr>]
                    else [])
           | None \<Rightarrow>
               if t = ''opc:TimeZoneDataType'' then Inr (validate_timezone v pth) else Inr [])
      | _ \<Rightarrow> Inr [])"

subsection \<open>Construction: parsing the profile\<close>

text \<open>
  The attributes of a \<^verbatim>\<open>ProfileValidator\<close>; \<open>fields'\<close> is \<^verbatim>\<open>self.fields\<close> and
  \<open>context'\<close> is \<^verbatim>\<open>self.context\<close>.
\<close>

record ProfileValidator =
  profile :: json
  referenced_profiles :: pydict
  is_data_type :: json
  fields' :: "(json \<times> json) list"
  namespace :: json
  context' :: json

text \<open>
  The field table is a dictionary built by a comprehension: its keys are whatever
  \<^verbatim>\<open>f.get("cesmii:fieldName")\<close> returns. A list or a dictionary cannot be hashed; a key
  that is already there (equal as Python compares keys) keeps its place and takes the
  new value.
\<close>

fun hashable :: "json \<Rightarrow> bool" where
  "hashable (JList xs) = False"
| "hashable (JObj kvs) = False"
| "hashable v = True"

fun dict_set :: "(json \<times> json) list \<Rightarrow> json \<Rightarrow> json \<Rightarrow> (json \<times> json) list" where
  "dict_set [] k v = [(k, v)]"
| "dict_set (kv # kvs) k v =
     (if py_eq (fst kv) k then (fst kv, v) # kvs else kv # dict_set kvs k v)"

fun collect_fields ::
    "string \<Rightarrow> json list \<Rightarrow> (json \<times> json) list \<Rightarrow> pyerror + (json \<times> json) list" where
  "collect_fields key_name [] acc = Inr acc"
| "collect_fields key_name (f # fs) acc =
     (case f of
        JObj d \<Rightarrow>
          (let k = dict_get d key_name
           in if hashable k then collect_fields key_name fs (dict_set acc k f)
              else Inl TypeError)
      | _ \<Rightarrow> Inl AttributeError)"

text \<open>
  The comprehension iterates over the value under \<^verbatim>\<open>"cesmii:fields"\<close> (or
  \<^verbatim>\<open>"cesmii:attributes"\<close>): a list gives its elements, a dictionary its keys and a string
  its characters (strings, on which \<^verbatim>\<open>.get\<close> raises \<^verbatim>\<open>AttributeError\<close>), and the other
  values cannot be iterated.
\<close>

definition field_table :: "string \<Rightarrow> json \<Rightarrow> pyerror + (json \<times> json) list" where
  "field_table key_name coll =
     (case coll of
        JList fs \<Rightarrow> collect_fields key_name fs []
      | JObj kvs \<Rightarrow> if kvs = [] then Inr [] else Inl AttributeError
      | JStr s \<Rightarrow> if s = [] then Inr [] else Inl AttributeError
      | _ \<Rightarrow> Inl TypeError)"

text \<open>\<^verbatim>\<open>__init__\<close> with \<^verbatim>\<open>_parse_profile\<close>\<close>

definition ProfileValidator_init :: "json \<Rightarrow> pydict option \<Rightarrow> pyerror + ProfileValidator" where
  "ProfileValidator_init prof refs =
     (case prof of
        JObj d \<Rightarrow>
          (let idt = dict_get_default d ''cesmii:isDataType'' (JBool False)
           in case (if truthy idt
                    then field_table ''cesmii:fieldName''
                           (dict_get_default d ''cesmii:fields'' (JList []))
                    else field_table ''cesmii:browseName''
                           (dict_get_default d ''cesmii:attributes'' (JList []))) of
                Inl e \<Rightarrow> Inl e
              | Inr fs \<Rightarrow>
                  Inr \<lparr>profile = prof,
                       referenced_profiles = (case refs of None \<Rightarrow> [] | Some r \<Rightarrow> r),
                       is_data_type = idt,
                       fields' = fs,
                       namespace = dict_get_default d ''@id'' (JStr []),
                       context' = dict_get_default d ''@context'' (JObj [])\<rparr>)
      | _ \<Rightarrow> Inl AttributeError)"

definition get_type_from_context :: "ProfileValidator \<Rightarrow> string \<Rightarrow> pyerror + json" where
  "get_type_from_context V field_name =
     (case context' V of
        JObj c \<Rightarrow>
          (case dict_get c field_name of
             JObj ctx_entry \<Rightarrow> Inr (dict_get ctx_entry ''@type'')
           | _ \<Rightarrow> Inr JNull)
      | _ \<Rightarrow> Inl AttributeError)"

subsection \<open>Resolving a profile reference\<close>

text \<open>
  \<^verbatim>\<open>ns in profile_ref or profile_ref in ns\<close>, where \<^verbatim>\<open>ns\<close> is a string: between strings
  \<^verbatim>\<open>in\<close> is the substring test; in a list it is membership, in a dictionary membership
  among the keys; a number has no \<^verbatim>\<open>in\<close>, and the left operand of \<^verbatim>\<open>in\<close> on a string
  must be a string.
\<close>

fun ref_matches :: "string \<Rightarrow> json \<Rightarrow> pyerror + bool" where
  "ref_matches ns (JStr r) = Inr (sublist ns r \<or> sublist r ns)"
| "ref_matches ns (JList xs) = (if JStr ns \<in> set xs then Inr True else Inl TypeError)"
| "ref_matches ns (JObj kvs) = (if map_of kvs ns \<noteq> None then Inr True else Inl TypeError)"
| "ref_matches ns v = Inl TypeError"

text \<open>
  The loop over \<^verbatim>\<open>self.referenced_profiles.items()\<close>; \<^verbatim>\<open>ref_profile\<close> starts as
  \<^verbatim>\<open>None\<close>.
\<close>

fun find_ref_profile :: "pydict \<Rightarrow> json \<Rightarrow> pyerror + json" where
  "find_ref_profile [] profile_ref = Inr JNull"
| "find_ref_profile (entry # rest) profile_ref =
     (case ref_matches (fst entry) profile_ref of
        Inl e \<Rightarrow> Inl e
      | Inr hit \<Rightarrow> if hit then Inr (snd entry) else find_ref_profile rest profile_ref)"

subsection \<open>Validation\<close>

definition namespace_warnings :: "(json \<Rightarrow> string) \<Rightarrow> ProfileValidator \<Rightarrow> pydict \<Rightarrow> string list" where
  "namespace_warnings fmt V payload =
     (let payload_ns = dict_get_default payload ''$namespace'' (JStr [])
      in if truthy payload_ns \<and> truthy (namespace V) \<and> \<not> py_eq payload_ns (namespace V) then
           [''Payload namespace '' @ [CHR 0x27] @ py_format fmt payload_ns @ [CHR 0x27]
              @ '' doesn'' @ [CHR 0x27] @ ''t match profile namespace '' @ [CHR 0x27]
              @ py_format fmt (namespace V) @ [CHR 0x27]]
         else [])"

text \<open>
  The local variables of the loop body of \<^verbatim>\<open>validate\<close>, for the field \<open>name\<close> with the
  definition \<open>fd\<close>: \<^verbatim>\<open>path\<close>, \<^verbatim>\<open>data_type_def\<close>, \<^verbatim>\<open>opc_type\<close> as the definition
  declares it and as the body resolves it (from \<^verbatim>\<open>@context\<close> when the declared one is
  missing or empty), \<^verbatim>\<open>is_array\<close> and \<^verbatim>\<open>profile_ref\<close>.
\<close>

definition field_path :: "string \<Rightarrow> string \<Rightarrow> string" where
  "field_path path_prefix name =
     (if path_prefix \<noteq> [] then path_prefix @ ''.'' @ name else name)"

definition data_type_def_of :: "pydict \<Rightarrow> json" where
  "data_type_def_of fd = dict_get_default fd ''cesmii:dataType'' (JObj [])"

definition declared_type_of :: "pydict \<Rightarrow> json" where
  "declared_type_of fd =
     (case data_type_def_of fd of JObj dt \<Rightarrow> dict_get dt ''@id'' | _ \<Rightarrow> JNull)"

definition opc_type_of :: "ProfileValidator \<Rightarrow> string \<Rightarrow> pydict \<Rightarrow> pyerror + json" where
  "opc_type_of V name fd =
     (if \<not> truthy (declared_type_of fd) then get_type_from_context V name
      else Inr (declared_type_of fd))"

definition is_array_of :: "pydict \<Rightarrow> json" where
  "is_array_of fd = dict_get_default fd ''cesmii:isArray'' (JBool False)"

definition profile_ref_of :: "pydict \<Rightarrow> json" where
  "profile_ref_of fd =
     (case data_type_def_of fd of
        JObj dt \<Rightarrow> dict_get dt ''cesmii:profileReference''
      | _ \<Rightarrow> JNull)"

text \<open>
  \<^verbatim>\<open>validate\<close> calls \<^verbatim>\<open>_validate_nested_profile\<close>, which calls \<^verbatim>\<open>validate\<close> of a new
  validator. The first argument bounds the depth of these nested calls: the result is
  \<open>None\<close> when the bound is reached, \<open>Some (Inl e)\<close> when an exception \<open>e\<close> leaves
  \<^verbatim>\<open>validate\<close>, and \<open>Some (Inr r)\<close> when it returns \<open>r\<close>. \<open>validate_fields\<close> is the loop
  over \<^verbatim>\<open>self.fields.items()\<close>, \<open>validate_field\<close> its body, and \<open>validate_items\<close> the
  loop over \<^verbatim>\<open>enumerate(value)\<close>. The interpreter's own limit on the depth of its stack
  is not part of the model.
\<close>

function validate ::
    "nat \<Rightarrow> (json \<Rightarrow> string) \<Rightarrow> ProfileValidator \<Rightarrow> json \<Rightarrow> string
      \<Rightarrow> (pyerror + ValidationResult) option"
  and validate_fields ::
    "nat \<Rightarrow> (json \<Rightarrow> string) \<Rightarrow> ProfileValidator \<Rightarrow> (json \<times> json) list \<Rightarrow> pydict \<Rightarrow> string
      \<Rightarrow> (pyerror + ValidationError list) option"
  and validate_field ::
    "nat \<Rightarrow> (json \<Rightarrow> string) \<Rightarrow> ProfileValidator \<Rightarrow> json \<Rightarrow> json \<Rightarrow> pydict \<Rightarrow> string
      \<Rightarrow> (pyerror + ValidationError list) option"
  and validate_items ::
    "nat \<Rightarrow> (json \<Rightarrow> string) \<Rightarrow> ProfileValidator \<Rightarrow> json \<Rightarrow> json \<Rightarrow> string \<Rightarrow> nat \<Rightarrow> json list
      \<Rightarrow> (pyerror + ValidationError list) option"
  and validate_nested_profile ::
    "nat \<Rightarrow> (json \<Rightarrow> string) \<Rightarrow> ProfileValidator \<Rightarrow> json \<Rightarrow> json \<Rightarrow> string
      \<Rightarrow> (pyerror + ValidationError list) option"
where
  "validate fuel fmt V payload path_prefix =
     (case payload of
        JObj kvs \<Rightarrow>
          (case validate_fields fuel fmt V (fields' V) kvs path_prefix of
             None \<Rightarrow> None
           | Some (Inl e) \<Rightarrow> Some (Inl e)
           | Some (Inr errs) \<Rightarrow>
               Some (Inr \<lparr>valid = (length errs = 0), errors = errs,
                          warnings = namespace_warnings fmt V kvs\<rparr>))
      | _ \<Rightarrow>
          Some (Inr \<lparr>valid = False,
                     errors =
                       [\<lparr>path = (if path_prefix \<noteq> [] then path_prefix else ''$''),
                         message = ''Payload must be an object'',
                         expected = Some ''object'',
                         actual = Some (type_name payload)\<rparr>],
                     warnings = []\<rparr>))"
| "validate_fields fuel fmt V [] payload path_prefix = Some (Inr [])"
| "validate_fields fuel fmt V (fd # fds) payload path_prefix =
     (case validate_field fuel fmt V (fst fd) (snd fd) payload path_prefix of
        None \<Rightarrow> None
      | Some (Inl e) \<Rightarrow> Some (Inl e)
      | Some (Inr errs) \<Rightarrow>
          (case validate_fields fuel fmt V fds payload path_prefix of
             None \<Rightarrow> None
           | Some (Inl e) \<Rightarrow> Some (Inl e)
           | Some (Inr errs') \<Rightarrow> Some (Inr (errs @ errs'))))"
| "validate_field fuel fmt V field_name field_def payload path_prefix =
     (case field_name of
        JStr name \<Rightarrow>
          (case map_of payload name of
             None \<Rightarrow> Some (Inr [])
           | Some v \<Rightarrow>
               (case field_def of
                  JObj fd \<Rightarrow>
                    (case opc_type_of V name fd of
                       Inl e \<Rightarrow> Some (Inl e)
                     | Inr opc_type \<Rightarrow>
                         if truthy (is_array_of fd) then
                           (case v of
                              JList items \<Rightarrow>
                                validate_items fuel fmt V (profile_ref_of fd) opc_type
                                  (field_path path_prefix name) 0 items
                            | _ \<Rightarrow>
                                Some (Inr [\<lparr>path = field_path path_prefix name,
                                            message = ''Expected array'',
                                            expected = Some ''array'',
                                            actual = Some (type_name v)\<rparr>]))
                         else if truthy (profile_ref_of fd) then
                           validate_nested_profile fuel fmt V v (profile_ref_of fd)
                             (field_path path_prefix name)
                         else if truthy opc_type then
                           Some (validate_opc_type v opc_type (field_path path_prefix name))
                         else Some (Inr []))
                | _ \<Rightarrow> Some (Inl AttributeError)))
      | _ \<Rightarrow> Some (Inr []))"
| "validate_items fuel fmt V profile_ref opc_type pth i [] = Some (Inr [])"
| "validate_items fuel fmt V profile_ref opc_type pth i (item # items) =
     (case (let item_path = pth @ ''['' @ string_of_nat i @ '']''
            in if truthy profile_ref then
                 validate_nested_profile fuel fmt V item profile_ref item_path
               else if truthy opc_type then Some (validate_opc_type item opc_type item_path)
               else Some (Inr [])) of
        None \<Rightarrow> None
      | Some (Inl e) \<Rightarrow> Some (Inl e)
      | Some (Inr errs) \<Rightarrow>
          (case validate_items fuel fmt V profile_ref opc_type pth (Suc i) items of
             None \<Rightarrow> None
           | Some (Inl e) \<Rightarrow> Some (Inl e)
           | Some (Inr errs') \<Rightarrow> Some (Inr (errs @ errs'))))"
| "validate_nested_profile fuel fmt V v profile_ref pth =
     (case find_ref_profile (referenced_profiles V) profile_ref of
        Inl e \<Rightarrow> Some (Inl e)
      | Inr ref_profile \<Rightarrow>
          (case ref_profile of
             JNull \<Rightarrow>
               Some (Inr [\<lparr>path = pth,
                           message =
                             ''Could not validate against referenced profile (not loaded): ''
                               @ py_format fmt profile_ref,
                           expected = None, actual = None\<rparr>])
           | _ \<Rightarrow>
               (case ProfileValidator_init ref_profile (Some (referenced_profiles V)) of
                  Inl e \<Rightarrow> Some (Inl e)
                | Inr nested_validator \<Rightarrow>
                    (case fuel of
                       0 \<Rightarrow> None
                     | Suc n \<Rightarrow>
                         (case validate n fmt nested_validator v pth of
                            None \<Rightarrow> None
                          | Some (Inl e) \<Rightarrow> Some (Inl e)
                          | Some (Inr result) \<Rightarrow> Some (Inr (errors result)))))))"
  by pat_completeness auto

text \<open>
  Each call lowers the bound, or keeps it and moves from a function to one it calls
  (\<^verbatim>\<open>validate\<close>, the loop over the fields, its body, the loop over the elements, the
  nested validation), or goes on in the same loop over a shorter list.
\<close>

termination
  by (relation "inv_image (less_than <*lex*> less_than <*lex*> less_than)
       (case_sum
          (case_sum (\<lambda>(fuel, fmt, V, payload, path_prefix). (fuel, 4::nat, 0::nat))
                    (\<lambda>(fuel, fmt, V, fds, payload, path_prefix). (fuel, 3, length fds)))
          (case_sum (\<lambda>(fuel, fmt, V, field_name, field_def, payload, path_prefix). (fuel, 2, 0))
             (case_sum (\<lambda>(fuel, fmt, V, profile_ref, opc_type, pth, i, items).
                          (fuel, 1, length items))
                       (\<lambda>(fuel, fmt, V, v, profile_ref, pth). (fuel, 0, 0)))))")
     auto

text \<open>
  The convenience function. A profile given as a string (or a path) is loaded first;
  \<^verbatim>\<open>load_profile\<close> reads a file or a URL and is an argument of the model: a function
  from the source to the document it holds, or to the exception it raises.
\<close>

definition validate_payload ::
    "nat \<Rightarrow> (json \<Rightarrow> string) \<Rightarrow> (string \<Rightarrow> pyerror + json) \<Rightarrow> json \<Rightarrow> json \<Rightarrow> pydict option
      \<Rightarrow> (pyerror + ValidationResult) option" where
  "validate_payload fuel fmt load_profile payload prof refs =
     (case (case prof of JStr source \<Rightarrow> load_profile source | _ \<Rightarrow> Inr prof) of
        Inl e \<Rightarrow> Some (Inl e)
      | Inr loaded \<Rightarrow>
          (case ProfileValidator_init loaded refs of
             Inl e \<Rightarrow> Some (Inl e)
           | Inr validator \<Rightarrow> validate fuel fmt validator payload []))"

section \<open>Nesting depth of a payload\<close>

text \<open>
  The number of dictionaries nested in one another along the deepest branch of a value
  (lists pass the depth of their elements on).
\<close>

fun jdepth :: "json \<Rightarrow> nat"
  and jdepth_list :: "json list \<Rightarrow> nat"
  and jdepth_items :: "pydict \<Rightarrow> nat" where
  "jdepth (JObj kvs) = Suc (jdepth_items kvs)"
| "jdepth (JList xs) = jdepth_list xs"
| "jdepth JNull = 0"
| "jdepth (JBool b) = 0"
| "jdepth (JInt i) = 0"
| "jdepth (JFloat r) = 0"
| "jdepth (JStr s) = 0"
| "jdepth_list [] = 0"
| "jdepth_list (x # xs) = max (jdepth x) (jdepth_list xs)"
| "jdepth_items [] = 0"
| "jdepth_items (kv # kvs) = max (jdepth (snd kv)) (jdepth_items kvs)"

section \<open>Example documents\<close>

text \<open>
  A profile with a primitive field, an array field that refers to another profile and a
  single-valued field that declares both a primitive type and a reference; the profile
  the array field refers to; and the validator that \<^verbatim>\<open>ProfileValidator(order_profile)\<close>
  constructs.
\<close>

definition order_number_def :: pydict where
  "order_number_def =
     [(''cesmii:browseName'', JStr ''Number''),
      (''cesmii:dataType'', JObj [(''@id'', JStr ''opc:Int32'')])]"

definition order_items_def :: pydict where
  "order_items_def =
     [(''cesmii:browseName'', JStr ''Items''),
      (''cesmii:isArray'', JBool True),
      (''cesmii:dataType'', JObj [(''cesmii:profileReference'', JStr ''urn:p/Item'')])]"

definition order_unit_def :: pydict where
  "order_unit_def =
     [(''cesmii:browseName'', JStr ''Unit''),
      (''cesmii:dataType'',
         JObj [(''@id'', JStr ''opc:Int32''), (''cesmii:profileReference'', JStr ''urn:p/Unit'')])]"

definition order_profile :: json where
  "order_profile =
     JObj [(''@id'', JStr ''urn:p/Order''),
           (''cesmii:attributes'',
              JList [JObj order_number_def, JObj order_items_def, JObj order_unit_def])]"

definition item_profile :: json where
  "item_profile =
     JObj [(''@id'', JStr ''urn:p/Item''),
           (''cesmii:isDataType'', JBool True),
           (''cesmii:fields'',
              JList [JObj [(''cesmii:fieldName'', JStr ''Qty''),
                           (''cesmii:dataType'', JObj [(''@id'', JStr ''opc:UInt16'')])]])]"

definition order_validator :: "pydict \<Rightarrow> ProfileValidator" where
  "order_validator refs =
     \<lparr>profile = order_profile,
      referenced_profiles = refs,
      is_data_type = JBool False,
      fields' = [(JStr ''Number'', JObj order_number_def),
                 (JStr ''Items'', JObj order_items_def),
                 (JStr ''Unit'', JObj order_unit_def)],
      namespace = JStr ''urn:p/Order'',
      context' = JObj []\<rparr>"

text \<open>
  Two profiles that refer to each other: \<open>ping_profile\<close> has the field \<^verbatim>\<open>pong\<close>, which
  refers to \<open>pong_profile\<close>, whose field \<^verbatim>\<open>ping\<close> refers back. Both are loaded.
\<close>

definition ping_profile :: json where
  "ping_profile =
     JObj [(''@id'', JStr ''urn:p/Ping''),
           (''cesmii:attributes'',
              JList [JObj [(''cesmii:browseName'', JStr ''pong''),
                           (''cesmii:dataType'',
                              JObj [(''cesmii:profileReference'', JStr ''urn:p/Pong'')])]])]"

definition pong_profile :: json where
  "pong_profile =
     JObj [(''@id'', JStr ''urn:p/Pong''),
           (''cesmii:attributes'',
              JList [JObj [(''cesmii:browseName'', JStr ''ping''),
                           (''cesmii:dataType'',
                              JObj [(''cesmii:profileReference'', JStr ''urn:p/Ping'')])]])]"

definition ping_pong_refs :: pydict where
  "ping_pong_refs = [(''urn:p/Ping'', ping_profile), (''urn:p/Pong'', pong_profile)]"

text \<open>
  The examples render strings only, and load no profile: a rendering for the other values
  and a loader that finds no document.
\<close>

definition fmt0 :: "json \<Rightarrow> string" where
  "fmt0 v = []"

definition load0 :: "string \<Rightarrow> pyerror + json" where
  "load0 source = Inl LoadError"

definition ping_validator :: ProfileValidator where
  "ping_validator =
     \<lparr>profile = ping_profile,
      referenced_profiles = ping_pong_refs,
      is_data_type = JBool False,
      fields' = [(JStr ''pong'',
                  JObj [(''cesmii:browseName'', JStr ''pong''),
                        (''cesmii:dataType'',
                           JObj [(''cesmii:profileReference'', JStr ''urn:p/Pong'')])])],
      namespace = JStr ''urn:p/Ping'',
      context' = JObj []\<rparr>"

section \<open>Specification of the loop over the elements of an array with a reference\<close>

text \<open>
  What the specification asks of an array field that declares a profile reference: each
  element, in order, goes to the nested validation under the path of its index, and to
  nothing else.
\<close>

fun nested_items ::
    "nat \<Rightarrow> (json \<Rightarrow> string) \<Rightarrow> ProfileValidator \<Rightarrow> json \<Rightarrow> string \<Rightarrow> nat \<Rightarrow> json list
      \<Rightarrow> (pyerror + ValidationError list) option" where
  "nested_items fuel fmt V profile_ref pth i [] = Some (Inr [])"
| "nested_items fuel fmt V profile_ref pth i (item # items) =
     (case validate_nested_profile fuel fmt V item profile_ref
             (pth @ ''['' @ string_of_nat i @ '']'') of
        None \<Rightarrow> None
      | Some (Inl e) \<Rightarrow> Some (Inl e)
      | Some (Inr errs) \<Rightarrow>
          (case nested_items fuel fmt V profile_ref pth (Suc i) items of
             None \<Rightarrow> None
           | Some (Inl e) \<Rightarrow> Some (Inl e)
           | Some (Inr errs') \<Rightarrow> Some (Inr (errs @ errs'))))"

section \<open>Evaluation of the model\<close>

text \<open>
  The equations of \<open>validate\<close>, of the loop body and of the nested validation hold for
  every argument; they are unfolded where a proof asks for them.
\<close>

declare validate.simps [simp del]
declare validate_field.simps [simp del]
declare validate_nested_profile.simps [simp del]

lemmas dict_defs = dict_get_default_def dict_get_def

lemmas local_defs =
  field_path_def data_type_def_of_def declared_type_of_def opc_type_of_def is_array_of_def
  profile_ref_of_def get_type_from_context_def

lemmas example_defs =
  order_profile_def order_number_def_def order_items_def_def order_unit_def_def
  item_profile_def order_validator_def ping_profile_def pong_profile_def ping_pong_refs_def
  ping_validator_def fmt0_def load0_def

lemmas validate_defs =
  validate.simps validate_field.simps validate_nested_profile.simps validate_payload_def
  ProfileValidator_init_def field_table_def Let_def namespace_warnings_def py_format_def
  validate_opc_type_def validate_timezone_def

lemma map_of_OPC_TYPE_VALIDATORS:
  "map_of OPC_TYPE_VALIDATORS t =
     (if t = ''opc:Boolean'' then Some (is_valid_boolean, ''boolean'')
      else if t = ''opc:Int16'' then Some (is_valid_int16, ''integer (-32768 to 32767)'')
      else if t = ''opc:Int32'' then
        Some (is_valid_int32, ''integer (-2147483648 to 2147483647)'')
      else if t = ''opc:Int64'' then Some (is_valid_int64, ''integer (64-bit)'')
      else if t = ''opc:UInt16'' then Some (is_valid_uint16, ''unsigned integer (0 to 65535)'')
      else if t = ''opc:UInt32'' then
        Some (is_valid_uint32, ''unsigned integer (0 to 4294967295)'')
      else if t = ''opc:UInt64'' then Some (is_valid_uint64, ''unsigned integer (64-bit)'')
      else if t = ''opc:Float'' then Some (is_valid_float, ''float'')
      else if t = ''opc:Double'' then Some (is_valid_double, ''double'')
      else if t = ''opc:String'' then Some (is_valid_string, ''string'')
      else if t = ''opc:DateTime'' then Some (is_valid_datetime, ''ISO 8601 datetime'')
      else if t = ''opc:UtcTime'' then
        Some (is_valid_utctime, ''ISO 8601 UTC time (ending with Z)'')
      else if t = ''opc:Guid'' then Some (is_valid_guid, ''GUID/UUID'')
      else None)"
  by (simp add: OPC_TYPE_VALIDATORS_def)

lemma init_order_profile:
  "ProfileValidator_init order_profile (Some refs) = Inr (order_validator refs)"
  by (simp add: ProfileValidator_init_def field_table_def Let_def dict_defs example_defs)

lemma init_order_profile_None:
  "ProfileValidator_init order_profile None = Inr (order_validator [])"
  by (simp add: ProfileValidator_init_def field_table_def Let_def dict_defs example_defs)

section \<open>The result of a validation\<close>

text \<open>
  The errors of a result are the errors of the fields of the profile, field after field in
  the order of the field table.
\<close>

lemma validate_fields_results:
  assumes "validate_fields fuel fmt V fds payload path_prefix = Some (Inr errs)"
  shows "\<exists>ess. list_all2
                  (\<lambda>fd es. validate_field fuel fmt V (fst fd) (snd fd) payload path_prefix
                             = Some (Inr es)) fds ess
               \<and> errs = concat ess"
  using assms
proof (induction fds arbitrary: errs)
  case Nil
  then show ?case by simp
next
  case (Cons fd fds)
  then obtain es errs' where
    head: "validate_field fuel fmt V (fst fd) (snd fd) payload path_prefix = Some (Inr es)"
    and tail: "validate_fields fuel fmt V fds payload path_prefix = Some (Inr errs')"
    and all: "errs = es @ errs'"
    by (auto split: option.splits sum.splits)
  from Cons.IH [OF tail] obtain ess where
    "list_all2 (\<lambda>fd es. validate_field fuel fmt V (fst fd) (snd fd) payload path_prefix
                          = Some (Inr es)) fds ess"
    and "errs' = concat ess"
    by blast
  with head all have
    "list_all2 (\<lambda>fd es. validate_field fuel fmt V (fst fd) (snd fd) payload path_prefix
                          = Some (Inr es)) (fd # fds) (es # ess)
     \<and> errs = concat (es # ess)"
    by simp
  then show ?case by blast
qed

lemma validate_errors_by_field:
  assumes "validate fuel fmt V (JObj payload) path_prefix = Some (Inr res)"
  shows "\<exists>ess. list_all2
                  (\<lambda>fd es. validate_field fuel fmt V (fst fd) (snd fd) payload path_prefix
                             = Some (Inr es)) (fields' V) ess
               \<and> errors res = concat ess"
proof -
  from assms
  have "validate_fields fuel fmt V (fields' V) payload path_prefix = Some (Inr (errors res))"
    by (auto simp: validate.simps split: option.splits sum.splits)
  then show ?thesis by (rule validate_fields_results)
qed

text \<open>
  C1. Whenever \<^verbatim>\<open>validate\<close> returns a result, its flag \<open>valid\<close> says that the list of
  errors is empty. This covers both returns: for a payload that is no dictionary the
  result is invalid and carries exactly one error, and the final return computes the
  flag from the collected errors.
\<close>

theorem validate_valid_iff_no_errors:
  assumes "validate fuel fmt V payload path_prefix = Some (Inr r)"
  shows "valid r = (errors r = [])
    \<and> (\<not> is_dict payload \<longrightarrow> \<not> valid r \<and> length (errors r) = 1)"
  using assms by (cases payload) (auto simp: validate.simps split: option.splits sum.splits)

text \<open>
  The theorem at three payloads for the example profile: a field of the wrong type, a
  field of the right type, and a payload that is a number.
\<close>

theorem validate_valid_iff_no_errors_witness:
  "validate 0 fmt0 (order_validator []) (JObj [(''Number'', JStr ''not-a-number'')]) [] =
     Some (Inr \<lparr>valid = False,
                errors = [\<lparr>path = ''Number'', message = ''Invalid type'',
                           expected = Some ''integer (-2147483648 to 2147483647)'',
                           actual = Some ''str''\<rparr>],
                warnings = []\<rparr>)
   \<and> validate 0 fmt0 (order_validator []) (JObj [(''Number'', JInt 7)]) [] =
     Some (Inr \<lparr>valid = True, errors = [], warnings = []\<rparr>)
   \<and> validate 0 fmt0 (order_validator []) (JInt 7) [] =
     Some (Inr \<lparr>valid = False,
                errors = [\<lparr>path = ''$'', message = ''Payload must be an object'',
                           expected = Some ''object'', actual = Some ''int''\<rparr>],
                warnings = []\<rparr>)"
proof -
  have a: "validate 0 fmt0 (order_validator []) (JObj [(''Number'', JStr ''not-a-number'')]) [] =
     Some (Inr \<lparr>valid = False,
                errors = [\<lparr>path = ''Number'', message = ''Invalid type'',
                           expected = Some ''integer (-2147483648 to 2147483647)'',
                           actual = Some ''str''\<rparr>],
                warnings = []\<rparr>)"
    by (simp add: validate_defs dict_defs local_defs example_defs map_of_OPC_TYPE_VALIDATORS
          is_valid_int32_def)
  have b: "validate 0 fmt0 (order_validator []) (JObj [(''Number'', JInt 7)]) [] =
     Some (Inr \<lparr>valid = True, errors = [], warnings = []\<rparr>)"
    by (simp add: validate_defs dict_defs local_defs example_defs map_of_OPC_TYPE_VALIDATORS
          is_valid_int32_def)
  have c: "validate 0 fmt0 (order_validator []) (JInt 7) [] =
     Some (Inr \<lparr>valid = False,
                errors = [\<lparr>path = ''$'', message = ''Payload must be an object'',
                           expected = Some ''object'', actual = Some ''int''\<rparr>],
                warnings = []\<rparr>)"
    by (simp add: validate_defs)
  from validate_valid_iff_no_errors [OF a] validate_valid_iff_no_errors [OF b]
    validate_valid_iff_no_errors [OF c] a b c
  show ?thesis by simp
qed

section \<open>The primitive types\<close>

text \<open>
  C2 says that every integer predicate rejects a boolean. The integer predicates test
  \<^verbatim>\<open>isinstance(value, int)\<close>, which holds of \<^verbatim>\<open>True\<close> and \<^verbatim>\<open>False\<close>: the check of
  \<^verbatim>\<open>True\<close> against \<^verbatim>\<open>opc:Int16\<close> passes and reports nothing.
\<close>

theorem boolean_rejected_counterexample:
  "is_valid_int16 (JBool True)
   \<and> validate_opc_type (JBool True) (JStr ''opc:Int16'') ''Number'' = Inr []"
  by (simp add: validate_opc_type_def map_of_OPC_TYPE_VALIDATORS is_valid_int16_def)

text \<open>
  C2, as the code has it. Each of the six integer predicates accepts both booleans
  (\<^verbatim>\<open>True\<close> counts as 1 and \<^verbatim>\<open>False\<close> as 0, which lie in all six ranges), and the
  primitive type check of a boolean against any of the six identifiers reports no error.
\<close>

theorem boolean_accepted_by_integer_types:
  "is_valid_int16 (JBool b) \<and> is_valid_int32 (JBool b) \<and> is_valid_int64 (JBool b)
   \<and> is_valid_uint16 (JBool b) \<and> is_valid_uint32 (JBool b) \<and> is_valid_uint64 (JBool b)
   \<and> validate_opc_type (JBool b) (JStr ''opc:Int16'') pth = Inr []
   \<and> validate_opc_type (JBool b) (JStr ''opc:Int32'') pth = Inr []
   \<and> validate_opc_type (JBool b) (JStr ''opc:Int64'') pth = Inr []
   \<and> validate_opc_type (JBool b) (JStr ''opc:UInt16'') pth = Inr []
   \<and> validate_opc_type (JBool b) (JStr ''opc:UInt32'') pth = Inr []
   \<and> validate_opc_type (JBool b) (JStr ''opc:UInt64'') pth = Inr []"
  by (simp add: validate_opc_type_def map_of_OPC_TYPE_VALIDATORS is_valid_int16_def
        is_valid_int32_def is_valid_int64_def is_valid_uint16_def is_valid_uint32_def
        is_valid_uint64_def)

text \<open>
  C7. The check of the time zone structure
  \<^verbatim>\<open>{"offset": 99999, "daylightSavingInOffset": false}\<close> reports exactly one error, at
  the sub-path \<^verbatim>\<open>.offset\<close>, for the value out of range, and none for
  \<^verbatim>\<open>daylightSavingInOffset\<close>; so does the primitive type check for
  \<^verbatim>\<open>opc:TimeZoneDataType\<close>. The two sub-checks do not depend on each other: when both
  sub-fields are wrong, or both are missing, both are reported, the offset first.
\<close>

theorem timezone_offset_out_of_range:
  "validate_timezone
     (JObj [(''offset'', JInt 99999), (''daylightSavingInOffset'', JBool False)]) pth =
     [\<lparr>path = pth @ ''.offset'', message = ''Invalid type'',
       expected = Some ''integer (-32768 to 32767)'', actual = Some ''int''\<rparr>]
   \<and> validate_opc_type
       (JObj [(''offset'', JInt 99999), (''daylightSavingInOffset'', JBool False)])
       (JStr ''opc:TimeZoneDataType'') pth =
     Inr [\<lparr>path = pth @ ''.offset'', message = ''Invalid type'',
           expected = Some ''integer (-32768 to 32767)'', actual = Some ''int''\<rparr>]
   \<and> validate_timezone
       (JObj [(''offset'', JInt 99999), (''daylightSavingInOffset'', JStr ''no'')]) pth =
     [\<lparr>path = pth @ ''.offset'', message = ''Invalid type'',
       expected = Some ''integer (-32768 to 32767)'', actual = Some ''int''\<rparr>,
      \<lparr>path = pth @ ''.daylightSavingInOffset'', message = ''Invalid type'',
       expected = Some ''boolean'', actual = Some ''str''\<rparr>]
   \<and> validate_timezone (JObj []) pth =
     [\<lparr>path = pth @ ''.offset'', message = ''Missing required field'',
       expected = None, actual = None\<rparr>,
      \<lparr>path = pth @ ''.daylightSavingInOffset'', message = ''Missing required field'',
       expected = None, actual = None\<rparr>]"
  by (simp add: validate_timezone_def validate_opc_type_def map_of_OPC_TYPE_VALIDATORS
        is_valid_int16_def is_valid_boolean_def)

text \<open>
  C8. The string \<^verbatim>\<open>2026-01-16T14:02:37Z\<close> satisfies the predicate of \<^verbatim>\<open>UtcTime\<close>; the
  string \<^verbatim>\<open>2026-01-16T14:02:37\<close>, without the final \<^verbatim>\<open>Z\<close>, fails it and satisfies the
  predicate of \<^verbatim>\<open>DateTime\<close>.
\<close>

theorem utc_suffix_scenario:
  "is_valid_utctime (JStr ''2026-01-16T14:02:37Z'')
   \<and> \<not> is_valid_utctime (JStr ''2026-01-16T14:02:37'')
   \<and> is_valid_datetime (JStr ''2026-01-16T14:02:37'')"
  by (simp add: is_valid_utctime_def is_valid_datetime_def datetime_rx_def rest_Z_dollar_def
        ends_Z_def)

text \<open>
  C10. The primitive type check applies a predicate only for an identifier that is a key
  of the table or \<^verbatim>\<open>opc:TimeZoneDataType\<close>: for every other string it reports nothing,
  whatever the value. Every key of the table starts with \<^verbatim>\<open>opc:\<close>, and the name that
  follows the prefix, taken alone, is such an unknown identifier; so is
  \<^verbatim>\<open>TimeZoneDataType\<close>.
\<close>

theorem unprefixed_identifier_is_unknown:
  "(t \<notin> set (map fst OPC_TYPE_VALIDATORS) \<and> t \<noteq> ''opc:TimeZoneDataType''
      \<longrightarrow> validate_opc_type v (JStr t) pth = Inr [])
   \<and> (\<forall>k \<in> set (map fst OPC_TYPE_VALIDATORS).
        take 4 k = ''opc:'' \<and> validate_opc_type v (JStr (drop 4 k)) pth = Inr [])
   \<and> validate_opc_type v (JStr ''TimeZoneDataType'') pth = Inr []"
proof (intro conjI impI)
  assume "t \<notin> set (map fst OPC_TYPE_VALIDATORS) \<and> t \<noteq> ''opc:TimeZoneDataType''"
  then have "map_of OPC_TYPE_VALIDATORS t = None" and "t \<noteq> ''opc:TimeZoneDataType''"
    by (simp_all add: map_of_eq_None_iff)
  then show "validate_opc_type v (JStr t) pth = Inr []"
    by (simp add: validate_opc_type_def)
next
  show "\<forall>k \<in> set (map fst OPC_TYPE_VALIDATORS).
          take 4 k = ''opc:'' \<and> validate_opc_type v (JStr (drop 4 k)) pth = Inr []"
    by (simp add: OPC_TYPE_VALIDATORS_def validate_opc_type_def)
next
  show "validate_opc_type v (JStr ''TimeZoneDataType'') pth = Inr []"
    by (simp add: validate_opc_type_def map_of_OPC_TYPE_VALIDATORS)
qed

text \<open>
  The theorem at \<^verbatim>\<open>Int16\<close> and \<^verbatim>\<open>Boolean\<close>, beside the prefixed identifiers at the same
  value.
\<close>

theorem unprefixed_identifier_is_unknown_witness:
  "''Int16'' \<notin> set (map fst OPC_TYPE_VALIDATORS)
   \<and> validate_opc_type (JStr ''x'') (JStr ''Int16'') ''Number'' = Inr []
   \<and> validate_opc_type (JStr ''x'') (JStr ''Boolean'') ''Number'' = Inr []
   \<and> validate_opc_type (JStr ''x'') (JStr ''opc:Int16'') ''Number'' =
       Inr [\<lparr>path = ''Number'', message = ''Invalid type'',
             expected = Some ''integer (-32768 to 32767)'', actual = Some ''str''\<rparr>]
   \<and> validate_opc_type (JStr ''x'') (JStr ''opc:Boolean'') ''Number'' =
       Inr [\<lparr>path = ''Number'', message = ''Invalid type'',
             expected = Some ''boolean'', actual = Some ''str''\<rparr>]"
proof -
  have h: "''Int16'' \<notin> set (map fst OPC_TYPE_VALIDATORS)"
    by (simp add: OPC_TYPE_VALIDATORS_def)
  have k: "''opc:Boolean'' \<in> set (map fst OPC_TYPE_VALIDATORS)"
    by (simp add: OPC_TYPE_VALIDATORS_def)
  from unprefixed_identifier_is_unknown [of "''Int16''" "JStr ''x''" "''Number''"] h
  have a: "validate_opc_type (JStr ''x'') (JStr ''Int16'') ''Number'' = Inr []"
    by simp
  from unprefixed_identifier_is_unknown [of "''Int16''" "JStr ''x''" "''Number''"] k
  have b: "validate_opc_type (JStr ''x'') (JStr ''Boolean'') ''Number'' = Inr []"
    by fastforce
  show ?thesis
    using h a b
    by (simp add: validate_opc_type_def map_of_OPC_TYPE_VALIDATORS is_valid_int16_def
          is_valid_boolean_def)
qed

section \<open>The loop body: arrays and references\<close>

text \<open>
  C5. For a field that is present in the payload and declared as an array, whose value is
  no list, the loop body reports exactly one error: \<^verbatim>\<open>Expected array\<close>, with
  \<^verbatim>\<open>expected="array"\<close> and the name of the value's type as \<^verbatim>\<open>actual\<close>. No element is
  looked at. (The type of the field is resolved before, which is assumed not to raise.)
\<close>

theorem expected_array_error:
  assumes "map_of payload name = Some v"
    and "truthy (is_array_of fd)"
    and "\<not> is_list v"
    and "opc_type_of V name fd = Inr t"
  shows "validate_field fuel fmt V (JStr name) (JObj fd) payload path_prefix =
           Some (Inr [\<lparr>path = field_path path_prefix name, message = ''Expected array'',
                       expected = Some ''array'', actual = Some (type_name v)\<rparr>])"
  using assms by (cases v) (simp_all add: validate_field.simps)

text \<open>
  The theorem for the array field of the example profile and the payload
  \<^verbatim>\<open>{"Items": "not-an-array"}\<close>, and the whole result of \<^verbatim>\<open>validate\<close> there.
\<close>

theorem expected_array_error_witness:
  "validate_field 0 fmt0 (order_validator []) (JStr ''Items'') (JObj order_items_def)
     [(''Items'', JStr ''not-an-array'')] [] =
     Some (Inr [\<lparr>path = ''Items'', message = ''Expected array'',
                 expected = Some ''array'', actual = Some ''str''\<rparr>])
   \<and> validate 0 fmt0 (order_validator []) (JObj [(''Items'', JStr ''not-an-array'')]) [] =
     Some (Inr \<lparr>valid = False,
                errors = [\<lparr>path = ''Items'', message = ''Expected array'',
                           expected = Some ''array'', actual = Some ''str''\<rparr>],
                warnings = []\<rparr>)"
proof -
  have a: "map_of [(''Items'', JStr ''not-an-array'')] ''Items'' = Some (JStr ''not-an-array'')"
    by simp
  have b: "truthy (is_array_of order_items_def)"
    by (simp add: is_array_of_def order_items_def_def dict_defs)
  have c: "\<not> is_list (JStr ''not-an-array'')"
    by simp
  have d: "opc_type_of (order_validator []) ''Items'' order_items_def = Inr JNull"
    by (simp add: local_defs dict_defs example_defs)
  have e: "validate 0 fmt0 (order_validator []) (JObj [(''Items'', JStr ''not-an-array'')]) [] =
     Some (Inr \<lparr>valid = False,
                errors = [\<lparr>path = ''Items'', message = ''Expected array'',
                           expected = Some ''array'', actual = Some ''str''\<rparr>],
                warnings = []\<rparr>)"
    by (simp add: validate_defs dict_defs local_defs example_defs)
  from expected_array_error [OF a b c d, of 0 fmt0 "[]"] e
  show ?thesis by (simp add: field_path_def)
qed

subsection \<open>Resolution of a reference\<close>

lemma find_ref_profile_JStr:
  "find_ref_profile refs (JStr r) =
     Inr (case List.find (\<lambda>entry. sublist (fst entry) r \<or> sublist r (fst entry)) refs of
            None \<Rightarrow> JNull
          | Some entry \<Rightarrow> snd entry)"
  by (induction refs) auto

lemma find_ref_profile_no_match:
  assumes "\<forall>entry \<in> set refs. \<not> sublist (fst entry) r \<and> \<not> sublist r (fst entry)"
  shows "find_ref_profile refs (JStr r) = Inr JNull"
  using assms by (induction refs) auto

text \<open>
  C6. For a reference that is a string, the resolution takes the profile of the first
  entry of \<^verbatim>\<open>referenced_profiles\<close>, in the order of iteration, whose key is a substring
  of the reference or contains the reference as a substring (\<open>List.find\<close> returns the
  first element that satisfies a predicate), and \<^verbatim>\<open>None\<close> when there is none. So an
  entry that matches after entries that do not is taken whatever follows it.
\<close>

theorem first_substring_match_wins:
  "find_ref_profile refs (JStr r) =
     Inr (case List.find (\<lambda>entry. sublist (fst entry) r \<or> sublist r (fst entry)) refs of
            None \<Rightarrow> JNull
          | Some entry \<Rightarrow> snd entry)
   \<and> ((\<forall>entry \<in> set before. \<not> sublist (fst entry) r \<and> \<not> sublist r (fst entry))
        \<and> (sublist ns r \<or> sublist r ns)
      \<longrightarrow> find_ref_profile (before @ (ns, p) # later) (JStr r) = Inr p)"
proof (intro conjI impI)
  show "find_ref_profile refs (JStr r) =
     Inr (case List.find (\<lambda>entry. sublist (fst entry) r \<or> sublist r (fst entry)) refs of
            None \<Rightarrow> JNull
          | Some entry \<Rightarrow> snd entry)"
    by (rule find_ref_profile_JStr)
next
  assume h: "(\<forall>entry \<in> set before. \<not> sublist (fst entry) r \<and> \<not> sublist r (fst entry))
        \<and> (sublist ns r \<or> sublist r ns)"
  then show "find_ref_profile (before @ (ns, p) # later) (JStr r) = Inr p"
    by (induction before) auto
qed

text \<open>
  The theorem for the reference \<^verbatim>\<open>p/Item\<close>: the key \<^verbatim>\<open>urn:p/Order\<close> does not match, the
  key \<^verbatim>\<open>urn:p/Item\<close> contains the reference without being equal to it, and the later
  key, which is equal to the reference, is not used.
\<close>

theorem first_substring_match_wins_witness:
  "find_ref_profile
     [(''urn:p/Order'', order_profile), (''urn:p/Item'', item_profile), (''p/Item'', JObj [])]
     (JStr ''p/Item'') = Inr item_profile"
proof -
  have a: "\<forall>entry \<in> set [(''urn:p/Order'', order_profile)].
             \<not> sublist (fst entry) ''p/Item'' \<and> \<not> sublist ''p/Item'' (fst entry)"
    by (simp add: sublist_code)
  have b: "sublist ''urn:p/Item'' ''p/Item'' \<or> sublist ''p/Item'' ''urn:p/Item''"
    by (simp add: sublist_code)
  from first_substring_match_wins
         [of "[]" "''p/Item''" "[(''urn:p/Order'', order_profile)]" "''urn:p/Item''"
             item_profile "[(''p/Item'', JObj [])]"] a b
  show ?thesis by simp
qed

subsection \<open>A field with a primitive type and a reference\<close>

lemma validate_items_with_reference:
  assumes "truthy profile_ref"
  shows "validate_items fuel fmt V profile_ref opc_type pth i items =
           nested_items fuel fmt V profile_ref pth i items"
  using assms
  by (induction items arbitrary: i) (simp_all add: Let_def split: option.splits sum.splits)

text \<open>
  C4. For a field that is present in the payload and declares both a type identifier and
  a profile reference (both non-empty), the loop body is the nested validation alone:
  of the value when the field is no array, and of each element of the list in turn when
  it is one (\<open>nested_items\<close>). \<open>validate_opc_type\<close> has no part in the result.
\<close>

theorem nested_reference_priority:
  assumes "map_of payload name = Some v"
    and "truthy (declared_type_of fd)"
    and "truthy (profile_ref_of fd)"
  shows "validate_field fuel fmt V (JStr name) (JObj fd) payload path_prefix =
           (if truthy (is_array_of fd) then
              (case v of
                 JList items \<Rightarrow>
                   nested_items fuel fmt V (profile_ref_of fd) (field_path path_prefix name) 0
                     items
               | _ \<Rightarrow>
                   Some (Inr [\<lparr>path = field_path path_prefix name,
                               message = ''Expected array'', expected = Some ''array'',
                               actual = Some (type_name v)\<rparr>]))
            else
              validate_nested_profile fuel fmt V v (profile_ref_of fd)
                (field_path path_prefix name))"
  using assms
  by (cases v)
     (simp_all add: validate_field.simps opc_type_of_def validate_items_with_reference)

text \<open>
  The theorem for the field \<^verbatim>\<open>Unit\<close> of the example profile, which declares
  \<^verbatim>\<open>opc:Int32\<close> and a reference to a profile that is loaded under the key \<^verbatim>\<open>Unit\<close>: the
  string \<^verbatim>\<open>kg\<close> is reported as a payload that is no object, not as an invalid integer.
\<close>

theorem nested_reference_priority_witness:
  "validate_field 1 fmt0 (order_validator [(''Unit'', item_profile)]) (JStr ''Unit'')
     (JObj order_unit_def) [(''Unit'', JStr ''kg'')] [] =
     validate_nested_profile 1 fmt0 (order_validator [(''Unit'', item_profile)]) (JStr ''kg'')
       (JStr ''urn:p/Unit'') ''Unit''
   \<and> validate_nested_profile 1 fmt0 (order_validator [(''Unit'', item_profile)]) (JStr ''kg'')
       (JStr ''urn:p/Unit'') ''Unit'' =
     Some (Inr [\<lparr>path = ''Unit'', message = ''Payload must be an object'',
                 expected = Some ''object'', actual = Some ''str''\<rparr>])"
proof -
  have a: "map_of [(''Unit'', JStr ''kg'')] ''Unit'' = Some (JStr ''kg'')"
    by simp
  have b: "truthy (declared_type_of order_unit_def)"
    by (simp add: local_defs dict_defs example_defs)
  have c: "profile_ref_of order_unit_def = JStr ''urn:p/Unit''"
    by (simp add: local_defs dict_defs example_defs)
  have d: "\<not> truthy (is_array_of order_unit_def)"
    by (simp add: local_defs dict_defs example_defs)
  have e: "validate_nested_profile 1 fmt0 (order_validator [(''Unit'', item_profile)])
       (JStr ''kg'') (JStr ''urn:p/Unit'') ''Unit'' =
     Some (Inr [\<lparr>path = ''Unit'', message = ''Payload must be an object'',
                 expected = Some ''object'', actual = Some ''str''\<rparr>])"
    by (simp add: validate_defs dict_defs example_defs sublist_code)
  from nested_reference_priority
         [OF a b, of 1 fmt0 "order_validator [(''Unit'', item_profile)]" "[]"] c d e
  show ?thesis by (simp add: field_path_def)
qed

section \<open>A reference to a profile that is not loaded\<close>

lemma string_of_nat_0: "string_of_nat 0 = ''0''"
  by (simp add: string_of_nat.simps [of 0] digit_char_def)

lemma string_of_nat_1: "string_of_nat (Suc 0) = ''1''"
  by (simp add: string_of_nat.simps [of "Suc 0"] digit_char_def)

lemma validate_fields_errors_subset:
  assumes "validate_fields fuel fmt V fds payload path_prefix = Some (Inr errs)"
    and "fd \<in> set fds"
    and "validate_field fuel fmt V (fst fd) (snd fd) payload path_prefix = Some (Inr es)"
  shows "set es \<subseteq> set errs"
  using assms
  by (induction fds arbitrary: errs) (auto split: option.splits sum.splits)

lemma validate_nested_profile_not_loaded:
  assumes "\<forall>entry \<in> set (referenced_profiles V).
             \<not> sublist (fst entry) r \<and> \<not> sublist r (fst entry)"
  shows "validate_nested_profile fuel fmt V v (JStr r) pth =
           Some (Inr [\<lparr>path = pth,
                       message =
                         ''Could not validate against referenced profile (not loaded): '' @ r,
                       expected = None, actual = None\<rparr>])"
  using find_ref_profile_no_match [OF assms]
  by (simp add: validate_nested_profile.simps py_format_def)

lemma validate_items_not_loaded:
  assumes "\<forall>entry \<in> set (referenced_profiles V).
             \<not> sublist (fst entry) r \<and> \<not> sublist r (fst entry)"
    and "r \<noteq> []"
  shows "validate_items fuel fmt V (JStr r) t pth i items =
           Some (Inr (map (\<lambda>j. \<lparr>path = pth @ ''['' @ string_of_nat j @ '']'',
                                 message =
                                   ''Could not validate against referenced profile (not loaded): ''
                                     @ r,
                                 expected = None, actual = None\<rparr>)
                        [i ..< i + length items]))"
proof (induction items arbitrary: i)
  case Nil
  show ?case by simp
next
  case (Cons item items)
  have "[i ..< i + length (item # items)] = i # [Suc i ..< Suc i + length items]"
    by (simp add: upt_rec)
  with Cons [of "Suc i"] assms show ?case
    by (simp add: validate_nested_profile_not_loaded Let_def)
qed

text \<open>
  C3 says that an unresolved reference gives exactly one error for the field and an
  invalid result. This fails for an array field. The field \<^verbatim>\<open>Items\<close> of the example profile declares
  a reference, and no profile is loaded: for an empty list the result is valid, with no
  error; for a list of two elements the field has two errors.
\<close>

theorem unresolved_reference_counterexample:
  "profile_ref_of order_items_def = JStr ''urn:p/Item''
   \<and> validate 0 fmt0 (order_validator []) (JObj [(''Items'', JList [])]) [] =
       Some (Inr \<lparr>valid = True, errors = [], warnings = []\<rparr>)
   \<and> validate 0 fmt0 (order_validator []) (JObj [(''Items'', JList [JInt 1, JInt 2])]) [] =
       Some (Inr \<lparr>valid = False,
                  errors =
                    [\<lparr>path = ''Items[0]'',
                      message =
                        ''Could not validate against referenced profile (not loaded): urn:p/Item'',
                      expected = None, actual = None\<rparr>,
                     \<lparr>path = ''Items[1]'',
                      message =
                        ''Could not validate against referenced profile (not loaded): urn:p/Item'',
                      expected = None, actual = None\<rparr>],
                  warnings = []\<rparr>)"
  by (simp add: validate_defs dict_defs local_defs example_defs string_of_nat_0
        string_of_nat_1)

text \<open>
  C3, as the code has it. Take a field that is present in the payload and declares a
  profile reference, a non-empty string, that no key of \<^verbatim>\<open>referenced_profiles\<close> matches
  under the substring rule (the type of the field is resolved before, which is assumed
  not to raise). If the field is no array, the loop body reports exactly one error, at the
  path of the field, whose message contains the text \<^verbatim>\<open>not loaded\<close> and the reference;
  then every result of \<^verbatim>\<open>validate\<close> for a profile with this field carries this error and
  is invalid. If the field is an array and its value a list, the loop body reports one
  such error for each element of the list, at the path of the element, and nothing else.
\<close>

theorem unresolved_reference_error:
  assumes "map_of payload name = Some v"
    and "profile_ref_of fd = JStr r"
    and "r \<noteq> []"
    and "opc_type_of V name fd = Inr t"
    and "\<forall>entry \<in> set (referenced_profiles V).
           \<not> sublist (fst entry) r \<and> \<not> sublist r (fst entry)"
  shows
    "(\<not> truthy (is_array_of fd) \<longrightarrow>
        validate_field fuel fmt V (JStr name) (JObj fd) payload path_prefix =
          Some (Inr [\<lparr>path = field_path path_prefix name,
                      message =
                        ''Could not validate against referenced profile (not loaded): '' @ r,
                      expected = None, actual = None\<rparr>])
        \<and> ((JStr name, JObj fd) \<in> set (fields' V) \<longrightarrow>
             (\<forall>res. validate fuel fmt V (JObj payload) path_prefix = Some (Inr res) \<longrightarrow>
                \<not> valid res
                \<and> \<lparr>path = field_path path_prefix name,
                    message =
                      ''Could not validate against referenced profile (not loaded): '' @ r,
                    expected = None, actual = None\<rparr> \<in> set (errors res))))
     \<and> (truthy (is_array_of fd) \<longrightarrow>
          (\<forall>items. v = JList items \<longrightarrow>
             validate_field fuel fmt V (JStr name) (JObj fd) payload path_prefix =
               Some (Inr (map (\<lambda>j. \<lparr>path = field_path path_prefix name @ ''[''
                                               @ string_of_nat j @ '']'',
                                     message =
                                       ''Could not validate against referenced profile (not loaded): ''
                                         @ r,
                                     expected = None, actual = None\<rparr>)
                            [0 ..< length items]))))
     \<and> sublist ''not loaded''
          (''Could not validate against referenced profile (not loaded): '' @ r)
     \<and> sublist r (''Could not validate against referenced profile (not loaded): '' @ r)"
proof (intro conjI impI allI)
  assume single: "\<not> truthy (is_array_of fd)"
  from assms single
  show field: "validate_field fuel fmt V (JStr name) (JObj fd) payload path_prefix =
          Some (Inr [\<lparr>path = field_path path_prefix name,
                      message =
                        ''Could not validate against referenced profile (not loaded): '' @ r,
                      expected = None, actual = None\<rparr>])"
    by (simp add: validate_field.simps validate_nested_profile_not_loaded)
  fix res
  assume member: "(JStr name, JObj fd) \<in> set (fields' V)"
    and result: "validate fuel fmt V (JObj payload) path_prefix = Some (Inr res)"
  from result
  have loop: "validate_fields fuel fmt V (fields' V) payload path_prefix =
                Some (Inr (errors res))"
    and flag: "valid res = (errors res = [])"
    by (auto simp: validate.simps split: option.splits sum.splits)
  from validate_fields_errors_subset [OF loop member] field
  have inside: "\<lparr>path = field_path path_prefix name,
                  message =
                    ''Could not validate against referenced profile (not loaded): '' @ r,
                  expected = None, actual = None\<rparr> \<in> set (errors res)"
    by simp
  then show "\<lparr>path = field_path path_prefix name,
                  message =
                    ''Could not validate against referenced profile (not loaded): '' @ r,
                  expected = None, actual = None\<rparr> \<in> set (errors res)" .
  from inside flag show "\<not> valid res"
    by auto
next
  fix items
  assume "truthy (is_array_of fd)" and "v = JList items"
  with assms
  show "validate_field fuel fmt V (JStr name) (JObj fd) payload path_prefix =
          Some (Inr (map (\<lambda>j. \<lparr>path = field_path path_prefix name @ ''[''
                                          @ string_of_nat j @ '']'',
                                message =
                                  ''Could not validate against referenced profile (not loaded): ''
                                    @ r,
                                expected = None, actual = None\<rparr>)
                       [0 ..< length items]))"
    by (simp add: validate_field.simps validate_items_not_loaded)
next
  have "''Could not validate against referenced profile (not loaded): '' @ r =
          ''Could not validate against referenced profile ('' @ ''not loaded'' @ ('')'' @ '': '' @ r)"
    by simp
  then show "sublist ''not loaded''
          (''Could not validate against referenced profile (not loaded): '' @ r)"
    by (metis sublist_appendI)
next
  show "sublist r (''Could not validate against referenced profile (not loaded): '' @ r)"
    by (rule sublist_append_leftI)
qed

text \<open>
  The theorem for the field \<^verbatim>\<open>Unit\<close> of the example profile, which is no array and
  refers to \<^verbatim>\<open>urn:p/Unit\<close>, where only \<^verbatim>\<open>urn:p/Item\<close> is loaded.
\<close>

theorem unresolved_reference_error_witness:
  "validate_field 0 fmt0 (order_validator [(''urn:p/Item'', item_profile)]) (JStr ''Unit'')
     (JObj order_unit_def) [(''Unit'', JStr ''kg'')] [] =
     Some (Inr [\<lparr>path = ''Unit'',
                 message =
                   ''Could not validate against referenced profile (not loaded): urn:p/Unit'',
                 expected = None, actual = None\<rparr>])
   \<and> validate 0 fmt0 (order_validator [(''urn:p/Item'', item_profile)])
       (JObj [(''Unit'', JStr ''kg'')]) [] =
     Some (Inr \<lparr>valid = False,
                errors =
                  [\<lparr>path = ''Unit'',
                    message =
                      ''Could not validate against referenced profile (not loaded): urn:p/Unit'',
                    expected = None, actual = None\<rparr>],
                warnings = []\<rparr>)"
proof -
  have a: "map_of [(''Unit'', JStr ''kg'')] ''Unit'' = Some (JStr ''kg'')"
    by simp
  have b: "profile_ref_of order_unit_def = JStr ''urn:p/Unit''"
    by (simp add: local_defs dict_defs example_defs)
  have c: "''urn:p/Unit'' \<noteq> []"
    by simp
  have d: "opc_type_of (order_validator [(''urn:p/Item'', item_profile)]) ''Unit''
             order_unit_def = Inr (JStr ''opc:Int32'')"
    by (simp add: local_defs dict_defs example_defs)
  have e: "\<forall>entry \<in> set (referenced_profiles
                            (order_validator [(''urn:p/Item'', item_profile)])).
             \<not> sublist (fst entry) ''urn:p/Unit'' \<and> \<not> sublist ''urn:p/Unit'' (fst entry)"
    by (simp add: order_validator_def sublist_code)
  have f: "\<not> truthy (is_array_of order_unit_def)"
    by (simp add: local_defs dict_defs example_defs)
  have g: "validate 0 fmt0 (order_validator [(''urn:p/Item'', item_profile)])
       (JObj [(''Unit'', JStr ''kg'')]) [] =
     Some (Inr \<lparr>valid = False,
                errors =
                  [\<lparr>path = ''Unit'',
                    message =
                      ''Could not validate against referenced profile (not loaded): urn:p/Unit'',
                    expected = None, actual = None\<rparr>],
                warnings = []\<rparr>)"
    by (simp add: validate_defs dict_defs local_defs example_defs sublist_code)
  from unresolved_reference_error [OF a b c d e, of 0 fmt0 "[]"] f g
  show ?thesis by (simp add: field_path_def)
qed

section \<open>Termination of the nested validation\<close>

text \<open>
  A nested call of \<^verbatim>\<open>validate\<close> gets the value of a field of the payload, or an element
  of such a value: a value nested one dictionary deeper. A payload that is no dictionary
  ends the recursion. So the depth \<open>jdepth payload\<close> is enough for the bound, whatever
  the profiles are.
\<close>

lemma jdepth_map_of:
  "map_of kvs k = Some v \<Longrightarrow> jdepth v \<le> jdepth_items kvs"
  by (induction kvs) (auto split: if_splits)

lemma validate_nested_profile_total:
  assumes "\<And>V' p pre. jdepth p \<le> m \<Longrightarrow> validate m fmt V' p pre \<noteq> None"
    and "jdepth v \<le> m"
  shows "validate_nested_profile (Suc m) fmt V v profile_ref pth \<noteq> None"
proof (cases "find_ref_profile (referenced_profiles V) profile_ref")
  case (Inl e)
  then show ?thesis by (simp add: validate_nested_profile.simps)
next
  case (Inr ref_profile)
  show ?thesis
  proof (cases "ProfileValidator_init ref_profile (Some (referenced_profiles V))")
    case (Inl e)
    with Inr show ?thesis
      by (cases ref_profile) (simp_all add: validate_nested_profile.simps)
  next
    case init: (Inr nested_validator)
    from assms have "validate m fmt nested_validator v pth \<noteq> None"
      by blast
    with Inr init show ?thesis
      by (cases ref_profile)
         (auto simp: validate_nested_profile.simps split: option.splits sum.splits)
  qed
qed

lemma validate_items_total:
  assumes "\<And>V' p pre. jdepth p \<le> m \<Longrightarrow> validate m fmt V' p pre \<noteq> None"
    and "jdepth_list items \<le> m"
  shows "validate_items (Suc m) fmt V profile_ref opc_type pth i items \<noteq> None"
  using assms(2)
proof (induction items arbitrary: i)
  case Nil
  show ?case by simp
next
  case (Cons item items)
  then have "jdepth item \<le> m" and rest: "jdepth_list items \<le> m"
    by simp_all
  from validate_nested_profile_total [OF assms(1) this(1)]
  have "validate_nested_profile (Suc m) fmt V item profile_ref
          (pth @ ''['' @ string_of_nat i @ '']'') \<noteq> None" .
  with Cons.IH [OF rest, of "Suc i"] show ?case
    by (auto simp: Let_def split: option.splits sum.splits)
qed

lemma validate_field_total:
  assumes "\<And>V' p pre. jdepth p \<le> m \<Longrightarrow> validate m fmt V' p pre \<noteq> None"
    and "jdepth_items payload \<le> m"
  shows "validate_field (Suc m) fmt V field_name field_def payload path_prefix \<noteq> None"
proof (cases field_name)
  case (JStr name)
  show ?thesis
  proof (cases "map_of payload name")
    case None
    with JStr show ?thesis by (simp add: validate_field.simps)
  next
    case (Some v)
    with assms(2) have deep: "jdepth v \<le> m"
      using jdepth_map_of le_trans by blast
    have nested: "validate_nested_profile (Suc m) fmt V v profile_ref pth \<noteq> None"
      for profile_ref pth
      by (rule validate_nested_profile_total [OF assms(1) deep])
    have items: "validate_items (Suc m) fmt V profile_ref opc_type pth i xs \<noteq> None"
      if "v = JList xs" for profile_ref opc_type pth i xs
      using validate_items_total [OF assms(1)] deep that by simp
    from JStr Some nested items show ?thesis
      by (cases field_def; cases v)
         (simp_all add: validate_field.simps split: sum.splits)
  qed
qed (simp_all add: validate_field.simps)

lemma validate_fields_total:
  assumes "\<And>V' p pre. jdepth p \<le> m \<Longrightarrow> validate m fmt V' p pre \<noteq> None"
    and "jdepth_items payload \<le> m"
  shows "validate_fields (Suc m) fmt V fds payload path_prefix \<noteq> None"
proof (induction fds)
  case Nil
  show ?case by simp
next
  case (Cons fd fds)
  from validate_field_total [OF assms]
  have "validate_field (Suc m) fmt V (fst fd) (snd fd) payload path_prefix \<noteq> None" .
  with Cons show ?case
    by (auto split: option.splits sum.splits)
qed

lemma validate_total:
  "jdepth payload \<le> fuel \<Longrightarrow> validate fuel fmt V payload path_prefix \<noteq> None"
proof (induction fuel arbitrary: V payload path_prefix)
  case 0
  then show ?case
    by (cases payload) (simp_all add: validate.simps)
next
  case (Suc m)
  show ?case
  proof (cases payload)
    case (JObj kvs)
    with Suc.prems have "jdepth_items kvs \<le> m"
      by simp
    from validate_fields_total [OF Suc.IH this]
    have "validate_fields (Suc m) fmt V (fields' V) kvs path_prefix \<noteq> None" .
    with JObj show ?thesis
      by (auto simp: validate.simps split: option.splits sum.splits)
  qed (simp_all add: validate.simps)
qed

subsection \<open>A larger bound gives the same result\<close>

text \<open>
  When the model returns within a bound, it returns the same within every larger one:
  the bound only cuts the recursion off, it never changes what \<^verbatim>\<open>validate\<close> computes.
\<close>

lemma validate_nested_profile_mono:
  assumes "\<And>m V' p pre out'.
             n = Suc m \<Longrightarrow> validate m fmt V' p pre = Some out'
               \<Longrightarrow> validate n fmt V' p pre = Some out'"
    and "validate_nested_profile n fmt V v profile_ref pth = Some out"
  shows "validate_nested_profile (Suc n) fmt V v profile_ref pth = Some out"
proof (cases "find_ref_profile (referenced_profiles V) profile_ref")
  case (Inl e)
  with assms(2) show ?thesis by (simp add: validate_nested_profile.simps)
next
  case (Inr ref_profile)
  show ?thesis
  proof (cases "ProfileValidator_init ref_profile (Some (referenced_profiles V))")
    case (Inl e)
    with Inr assms(2) show ?thesis
      by (cases ref_profile) (simp_all add: validate_nested_profile.simps)
  next
    case init: (Inr nested_validator)
    show ?thesis
    proof (cases n)
      case 0
      with Inr init assms(2) show ?thesis
        by (cases ref_profile) (simp_all add: validate_nested_profile.simps)
    next
      case (Suc m)
      have step: "validate n fmt nested_validator v pth = Some out'"
        if "validate m fmt nested_validator v pth = Some out'" for out'
        using assms(1) [OF Suc that] .
      from Inr init Suc assms(2) step show ?thesis
        by (cases ref_profile)
           (auto simp: validate_nested_profile.simps split: option.splits sum.splits)
    qed
  qed
qed

lemma validate_items_mono:
  assumes "\<And>m V' p pre out'.
             n = Suc m \<Longrightarrow> validate m fmt V' p pre = Some out'
               \<Longrightarrow> validate n fmt V' p pre = Some out'"
    and "validate_items n fmt V profile_ref opc_type pth i items = Some out"
  shows "validate_items (Suc n) fmt V profile_ref opc_type pth i items = Some out"
  using assms(2)
proof (induction items arbitrary: i out)
  case Nil
  then show ?case by simp
next
  case (Cons item items)
  note nested = validate_nested_profile_mono [OF assms(1)]
  from Cons.prems Cons.IH nested show ?case
    by (auto simp: Let_def split: option.splits sum.splits if_splits)
qed

lemma validate_field_mono:
  assumes "\<And>m V' p pre out'.
             n = Suc m \<Longrightarrow> validate m fmt V' p pre = Some out'
               \<Longrightarrow> validate n fmt V' p pre = Some out'"
    and "validate_field n fmt V field_name field_def payload path_prefix = Some out"
  shows "validate_field (Suc n) fmt V field_name field_def payload path_prefix = Some out"
proof -
  note nested = validate_nested_profile_mono [OF assms(1)]
  note items = validate_items_mono [OF assms(1)]
  from assms(2) nested items show ?thesis
    by (auto simp: validate_field.simps split: json.splits option.splits sum.splits if_splits)
qed

lemma validate_fields_mono:
  assumes "\<And>m V' p pre out'.
             n = Suc m \<Longrightarrow> validate m fmt V' p pre = Some out'
               \<Longrightarrow> validate n fmt V' p pre = Some out'"
    and "validate_fields n fmt V fds payload path_prefix = Some out"
  shows "validate_fields (Suc n) fmt V fds payload path_prefix = Some out"
  using assms(2)
proof (induction fds arbitrary: out)
  case Nil
  then show ?case by simp
next
  case (Cons fd fds)
  note field = validate_field_mono [OF assms(1)]
  from Cons.prems Cons.IH field show ?case
    by (auto split: option.splits sum.splits)
qed

lemma validate_mono_Suc:
  "validate n fmt V payload path_prefix = Some out
    \<Longrightarrow> validate (Suc n) fmt V payload path_prefix = Some out"
proof (induction n arbitrary: V payload path_prefix out)
  case 0
  have "validate_fields (Suc 0) fmt V fds kvs path_prefix = Some out'"
    if "validate_fields 0 fmt V fds kvs path_prefix = Some out'" for fds kvs out'
    using that by (rule validate_fields_mono [rotated]) simp
  with "0.prems" show ?case
    by (auto simp: validate.simps split: json.splits option.splits sum.splits)
next
  case (Suc k)
  have "validate_fields (Suc (Suc k)) fmt V fds kvs path_prefix = Some out'"
    if "validate_fields (Suc k) fmt V fds kvs path_prefix = Some out'" for fds kvs out'
    using that by (rule validate_fields_mono [rotated]) (blast intro: Suc.IH)
  with Suc.prems show ?case
    by (auto simp: validate.simps split: json.splits option.splits sum.splits)
qed

lemma validate_mono:
  assumes "validate n fmt V payload path_prefix = Some out" and "n \<le> n'"
  shows "validate n' fmt V payload path_prefix = Some out"
  using assms(2, 1) by (induction rule: dec_induct) (simp_all add: validate_mono_Suc)

lemma validate_returns_from_depth:
  assumes "jdepth payload \<le> fuel"
  shows "\<exists>outcome. \<forall>n. fuel \<le> n \<longrightarrow> validate n fmt V payload path_prefix = Some outcome"
proof -
  from validate_total [OF assms] obtain outcome where
    "validate fuel fmt V payload path_prefix = Some outcome"
    by blast
  then have "\<forall>n. fuel \<le> n \<longrightarrow> validate n fmt V payload path_prefix = Some outcome"
    by (blast intro: validate_mono)
  then show ?thesis ..
qed

subsection \<open>Profiles that refer to each other\<close>

lemma init_ping_profile:
  "ProfileValidator_init ping_profile (Some ping_pong_refs) = Inr ping_validator"
  by (simp add: ProfileValidator_init_def field_table_def Let_def dict_defs ping_profile_def
        ping_validator_def)

lemma ping_profile_is_loaded:
  "(case ping_profile of JStr source \<Rightarrow> load source | _ \<Rightarrow> Inr ping_profile) =
     Inr ping_profile"
  by (simp add: ping_profile_def)

text \<open>
  C9 says that with profiles that refer to each other some payload makes the validation
  recurse without end. The two example profiles refer to each other, and both references
  resolve; all the same the validation of every payload returns, within the nesting depth
  of the payload.
\<close>

theorem cyclic_profiles_counterexample:
  "find_ref_profile ping_pong_refs (JStr ''urn:p/Pong'') = Inr pong_profile
   \<and> find_ref_profile ping_pong_refs (JStr ''urn:p/Ping'') = Inr ping_profile
   \<and> (\<forall>payload.
        validate_payload (jdepth payload) fmt0 load0 payload ping_profile (Some ping_pong_refs)
          \<noteq> None)"
proof (intro conjI allI)
  show "find_ref_profile ping_pong_refs (JStr ''urn:p/Pong'') = Inr pong_profile"
    by (simp add: ping_pong_refs_def sublist_code)
  show "find_ref_profile ping_pong_refs (JStr ''urn:p/Ping'') = Inr ping_profile"
    by (simp add: ping_pong_refs_def sublist_code)
  fix payload
  show "validate_payload (jdepth payload) fmt0 load0 payload ping_profile
          (Some ping_pong_refs) \<noteq> None"
    by (simp add: validate_payload_def ping_profile_is_loaded init_ping_profile validate_total)
qed

text \<open>
  C9, as the code has it. Whatever the profiles and the references between them, cyclic
  or not, \<^verbatim>\<open>validate\<close> returns (a result or an exception) on every payload, and its
  nested calls go no deeper than dictionaries are nested in the payload: from that depth
  on, every bound gives one and the same outcome. So does \<^verbatim>\<open>validate_payload\<close>. The
  recursion is as deep as the payload, not as the graph of the profiles.
\<close>

theorem validate_terminates:
  assumes "jdepth payload \<le> fuel"
  shows "(\<exists>outcome. \<forall>n. fuel \<le> n \<longrightarrow> validate n fmt V payload path_prefix = Some outcome)
    \<and> (\<exists>outcome. \<forall>n. fuel \<le> n \<longrightarrow>
          validate_payload n fmt load_profile payload prof refs = Some outcome)"
proof
  show "\<exists>outcome. \<forall>n. fuel \<le> n \<longrightarrow> validate n fmt V payload path_prefix = Some outcome"
    by (rule validate_returns_from_depth [OF assms])
  show "\<exists>outcome. \<forall>n. fuel \<le> n \<longrightarrow>
          validate_payload n fmt load_profile payload prof refs = Some outcome"
  proof (cases "case prof of JStr source \<Rightarrow> load_profile source | _ \<Rightarrow> Inr prof")
    case (Inl e)
    then show ?thesis by (simp add: validate_payload_def)
  next
    case loaded: (Inr doc)
    show ?thesis
    proof (cases "ProfileValidator_init doc refs")
      case (Inl e)
      with loaded show ?thesis by (simp add: validate_payload_def)
    next
      case (Inr validator)
      with loaded validate_returns_from_depth [OF assms, of fmt validator "[]"]
      show ?thesis by (simp add: validate_payload_def)
    qed
  qed
qed

text \<open>
  The theorem for the two profiles that refer to each other and a payload in which three
  dictionaries are nested: the third nested call gets the number and returns, and the
  bound 7 gives what the bound 3 gives. With a bound below the depth of the payload the
  model stops at the bound.
\<close>

theorem validate_terminates_witness:
  "jdepth (JObj [(''pong'', JObj [(''ping'', JObj [(''pong'', JInt 5)])])]) = 3
   \<and> validate 3 fmt0 ping_validator
       (JObj [(''pong'', JObj [(''ping'', JObj [(''pong'', JInt 5)])])]) [] =
     Some (Inr \<lparr>valid = False,
                errors = [\<lparr>path = ''pong.ping.pong'', message = ''Payload must be an object'',
                           expected = Some ''object'', actual = Some ''int''\<rparr>],
                warnings = []\<rparr>)
   \<and> validate 7 fmt0 ping_validator
       (JObj [(''pong'', JObj [(''ping'', JObj [(''pong'', JInt 5)])])]) [] =
     Some (Inr \<lparr>valid = False,
                errors = [\<lparr>path = ''pong.ping.pong'', message = ''Payload must be an object'',
                           expected = Some ''object'', actual = Some ''int''\<rparr>],
                warnings = []\<rparr>)
   \<and> validate 2 fmt0 ping_validator
       (JObj [(''pong'', JObj [(''ping'', JObj [(''pong'', JInt 5)])])]) [] = None"
proof -
  have a: "jdepth (JObj [(''pong'', JObj [(''ping'', JObj [(''pong'', JInt 5)])])]) \<le> 3"
    by simp
  have b: "jdepth (JObj [(''pong'', JObj [(''ping'', JObj [(''pong'', JInt 5)])])]) = 3"
    by simp
  have c: "validate 3 fmt0 ping_validator
       (JObj [(''pong'', JObj [(''ping'', JObj [(''pong'', JInt 5)])])]) [] =
     Some (Inr \<lparr>valid = False,
                errors = [\<lparr>path = ''pong.ping.pong'', message = ''Payload must be an object'',
                           expected = Some ''object'', actual = Some ''int''\<rparr>],
                warnings = []\<rparr>)"
    by (simp add: validate_defs dict_defs local_defs example_defs sublist_code
          eval_nat_numeral)
  have d: "validate 2 fmt0 ping_validator
       (JObj [(''pong'', JObj [(''ping'', JObj [(''pong'', JInt 5)])])]) [] = None"
    by (simp add: validate_defs dict_defs local_defs example_defs sublist_code
          eval_nat_numeral)
  from validate_terminates
         [OF a, of fmt0 ping_validator "[]" load0 ping_profile "Some ping_pong_refs"]
  obtain outcome where
    e: "\<forall>n. 3 \<le> n \<longrightarrow>
          validate n fmt0 ping_validator
            (JObj [(''pong'', JObj [(''ping'', JObj [(''pong'', JInt 5)])])]) [] = Some outcome"
    by blast
  from e have "validate 3 fmt0 ping_validator
       (JObj [(''pong'', JObj [(''ping'', JObj [(''pong'', JInt 5)])])]) [] = Some outcome"
    by simp
  with c have "outcome = Inr \<lparr>valid = False,
                errors = [\<lparr>path = ''pong.ping.pong'', message = ''Payload must be an object'',
                           expected = Some ''object'', actual = Some ''int''\<rparr>],
                warnings = []\<rparr>"
    by simp
  with e have "validate 7 fmt0 ping_validator
       (JObj [(''pong'', JObj [(''ping'', JObj [(''pong'', JInt 5)])])]) [] =
     Some (Inr \<lparr>valid = False,
                errors = [\<lparr>path = ''pong.ping.pong'', message = ''Payload must be an object'',
                           expected = Some ''object'', actual = Some ''int''\<rparr>],
                warnings = []\<rparr>)"
    by simp
  with b c d show ?thesis by simp
qed

end
